theory Spec2Isabelle
  imports Complex_Main
begin

section \<open>Data model\<close>

text \<open>
  The repository is three Python scripts. \<^verbatim>\<open>signals_volume2.py\<close> holds the rate limiter,
  the pattern detector and the polling loop; \<^verbatim>\<open>discord_alerts.py\<close> holds the dispatcher
  that tails the alert log. Exceptions are values of \<open>py_error\<close>, and a function that
  can raise returns \<open>py_error + 'a\<close>. Python floats (\<^verbatim>\<open>float64\<close>) are idealised as
  reals: rounding, infinities and NaN are outside the model.
\<close>

datatype py_error = IndexError | KeyError | ZeroDivisionError

text \<open>
  One row of \<^verbatim>\<open>ohlcv_list\<close>: \<^verbatim>\<open>[timestamp, open, high, low, close, volume]\<close>.
  The timestamp is in whole seconds.
\<close>

record candle =
  timestamp :: int
  open_price :: real
  high :: real
  low :: real
  close_price :: real
  volume :: real

text \<open>
  A pandas \<^verbatim>\<open>DataFrame\<close> is a list of rows, each with its index label. Position (what
  \<^verbatim>\<open>iloc\<close> counts) is the place in the list; the label (what \<^verbatim>\<open>loc\<close> and
  \<^verbatim>\<open>iterrows\<close> use) is the first component.
\<close>

type_synonym dataframe = "(nat \<times> candle) list"

text \<open>\<^verbatim>\<open>pd.DataFrame(ohlcv_data, columns=[...])\<close>: the default index labels rows 0, 1, 2, ...\<close>

definition DataFrame :: "candle list \<Rightarrow> dataframe" where
  "DataFrame ohlcv_data = enumerate 0 ohlcv_data"

text \<open>
  \<^verbatim>\<open>df.iloc[i]\<close> for one integer: positional, a negative \<open>i\<close> counts from the end, and
  a position outside the frame raises \<^verbatim>\<open>IndexError\<close>.
\<close>

definition iloc :: "dataframe \<Rightarrow> int \<Rightarrow> py_error + candle" where
  "iloc df i =
     (let pos = (if i < 0 then i + int (length df) else i)
      in if pos < 0 \<or> int (length df) \<le> pos then Inl IndexError
         else Inr (snd (df ! nat pos)))"

text \<open>
  \<^verbatim>\<open>df.loc[:i]\<close>: a slice by label, both ends included, so the rows from the first one
  through the row labelled \<open>i\<close>. At its only call site \<open>i\<close> is a label of the frame.
\<close>

fun loc_upto :: "dataframe \<Rightarrow> nat \<Rightarrow> dataframe" where
  "loc_upto [] i = []"
| "loc_upto ((l, row) # rest) i =
     (if l = i then [(l, row)] else (l, row) # loc_upto rest i)"

section \<open>PatternDetector\<close>

text \<open>
  \<^verbatim>\<open>is_candle_closed\<close> reads \<^verbatim>\<open>datetime.now().timestamp()\<close> on every call. The
  readings one call of \<^verbatim>\<open>analyze_candles\<close> takes are a \<open>clock\<close>: reading 0 is taken
  in \<^verbatim>\<open>prepare_data\<close>, readings 1, 2, ... by the rows the scan looks at.
\<close>

type_synonym clock = "nat \<Rightarrow> real"

definition is_candle_closed :: "candle \<Rightarrow> real \<Rightarrow> bool" where
  "is_candle_closed c current_time \<longleftrightarrow>
     timestamp c mod 300 = 0 \<and> real_of_int (timestamp c) < current_time"

definition prepare_data :: "clock \<Rightarrow> candle list \<Rightarrow> py_error + dataframe" where
  "prepare_data clk ohlcv_data =
     (let df = DataFrame ohlcv_data
      in case iloc df (- 1) of
           Inl e \<Rightarrow> Inl e
         | Inr c \<Rightarrow> if is_candle_closed c (clk 0) then Inr df else Inr (butlast df))"

text \<open>
  The \<^verbatim>\<open>for i, row in df.iterrows(): ... break ... else:\<close> loop: the label of the first
  row that is closed, or \<open>None\<close> when the loop runs to its \<^verbatim>\<open>else\<close>. \<open>k\<close> counts
  the clock readings.
\<close>

fun first_closed :: "clock \<Rightarrow> nat \<Rightarrow> dataframe \<Rightarrow> nat option" where
  "first_closed clk k [] = None"
| "first_closed clk k ((i, row) # rest) =
     (if is_candle_closed row (clk k) then Some i else first_closed clk (Suc k) rest)"

datatype reason =
    insufficient_candles
  | below_volume_floor
  | last_candle_volume_not_higher_than_average

text \<open>
  The dictionary \<^verbatim>\<open>analyze_candles\<close> returns. \<open>below_volume_floor\<close> stands for the
  reason string of line 97; the other two reasons carry the source's strings.
\<close>

datatype pattern_result =
    Invalid (res_reason: reason)
  | valid: Valid (res_timestamp: int) (last_candle_volume: real) (average_previous_volume: real)

text \<open>
  \<^verbatim>\<open>prev_volumes.prod() ** (1 / len(prev_volumes))\<close> and the effective average
  \<^verbatim>\<open>avg_volume * 7\<close>, over the reals. The source computes both in \<^verbatim>\<open>float64\<close>
  (the product of integer volumes in \<^verbatim>\<open>int64\<close>), so near a threshold its verdict can
  differ from the model's; the claims below are settled at inputs where the source's
  arithmetic is exact. Volumes are not negative; for a negative product and a
  fractional exponent the source computes NaN, which the reals do not have.
\<close>

definition geometric_mean :: "real list \<Rightarrow> real" where
  "geometric_mean prev_volumes = prod_list prev_volumes powr (1 / real (length prev_volumes))"

definition effective_avg_volume :: "real \<Rightarrow> real" where
  "effective_avg_volume avg_volume = (if avg_volume \<ge> 999 then avg_volume else avg_volume * 7)"

definition analyze_candles :: "clock \<Rightarrow> candle list \<Rightarrow> py_error + pattern_result" where
  "analyze_candles clk ohlcv_data =
     (case prepare_data clk ohlcv_data of
        Inl e \<Rightarrow> Inl e
      | Inr prepared \<Rightarrow>
          (let df = rev prepared
           in case first_closed clk 1 df of
                None \<Rightarrow> Inr (Invalid insufficient_candles)
              | Some i \<Rightarrow>
                  (let prev_volumes = map (\<lambda>(l, row). volume row) (loc_upto df i);
                       avg_volume = geometric_mean prev_volumes
                   in if avg_volume < 10 then Inr (Invalid below_volume_floor)
                      else (case iloc df (int i) of
                              Inl e \<Rightarrow> Inl e
                            | Inr row \<Rightarrow>
                                if volume row > effective_avg_volume avg_volume
                                then Inr (Valid (timestamp row) (volume row) avg_volume)
                                else Inr (Invalid last_candle_volume_not_higher_than_average)))))"

text \<open>A clock that stands still at \<open>t\<close>: every reading of one call returns \<open>t\<close>.\<close>

definition frozen_clock :: "real \<Rightarrow> clock" where
  "frozen_clock t = (\<lambda>k. t)"

text \<open>A candle whose four prices are 1, with the given timestamp and volume.\<close>

definition flat_candle :: "int \<Rightarrow> real \<Rightarrow> candle" where
  "flat_candle ts v =
     \<lparr>timestamp = ts, open_price = 1, high = 1, low = 1, close_price = 1, volume = v\<rparr>"

section \<open>RateLimiter\<close>

record rate_limiter =
  calls_per_minute :: int
  interval :: real
  timestamps :: "real list"

definition RateLimiter :: "int \<Rightarrow> py_error + rate_limiter" where
  "RateLimiter cpm =
     (if cpm = 0 then Inl ZeroDivisionError
      else Inr \<lparr>calls_per_minute = cpm, interval = 60 / real_of_int cpm, timestamps = []\<rparr>)"

text \<open>
  \<^verbatim>\<open>wait_if_needed\<close>, given the reading \<open>current_time\<close> it takes on entry. It returns
  the time it sleeps (0 when it does not sleep) and the limiter with the reading
  appended. \<^verbatim>\<open>self.timestamps[0]\<close> on an empty deque raises \<^verbatim>\<open>IndexError\<close>.
\<close>

definition wait_if_needed :: "rate_limiter \<Rightarrow> real \<Rightarrow> py_error + (real \<times> rate_limiter)" where
  "wait_if_needed self current_time =
     (let ts = dropWhile (\<lambda>t. current_time - t > 60) (timestamps self)
      in if int (length ts) \<ge> calls_per_minute self
         then (case ts of
                 [] \<Rightarrow> Inl IndexError
               | oldest # _ \<Rightarrow>
                   (let wait_time = 60 - (current_time - oldest)
                    in Inr (if wait_time > 0 then wait_time else 0,
                            self\<lparr>timestamps := ts @ [current_time]\<rparr>)))
         else Inr (0, self\<lparr>timestamps := ts @ [current_time]\<rparr>))"

text \<open>
  One thread calling the limiter again and again, as both passes of
  \<^verbatim>\<open>process_addresses\<close> do: the caller is at time \<open>now\<close>, spends \<open>gap\<close> seconds
  before each call, enters \<^verbatim>\<open>wait_if_needed\<close>, and is released when the sleep is
  over. The result lists the release times, the moments at which the guarded
  request goes out.
\<close>

fun release_times :: "rate_limiter \<Rightarrow> real \<Rightarrow> real list \<Rightarrow> py_error + (real list \<times> rate_limiter)" where
  "release_times self now [] = Inr ([], self)"
| "release_times self now (gap # gaps) =
     (case wait_if_needed self (now + gap) of
        Inl e \<Rightarrow> Inl e
      | Inr (slept, self') \<Rightarrow>
          (case release_times self' (now + gap + slept) gaps of
             Inl e \<Rightarrow> Inl e
           | Inr (rs, self'') \<Rightarrow> Inr ((now + gap + slept) # rs, self'')))"

text \<open>How many of the times \<open>ts\<close> lie in the 60 seconds that end at \<open>t\<close>.\<close>

definition calls_in_window :: "real list \<Rightarrow> real \<Rightarrow> nat" where
  "calls_in_window ts t = length (filter (\<lambda>u. t - 60 < u \<and> u \<le> t) ts)"

section \<open>MarketDataProcessor: the two passes\<close>

text \<open>
  One pair object of the metadata response, with the keys the code reads. \<open>None\<close> is a
  key that is missing or whose value makes \<^verbatim>\<open>float(...)\<close> raise: either way the
  exception ends in the pass's \<^verbatim>\<open>except Exception: continue\<close>.
\<close>

record pair_json =
  json_pairAddress :: "string option"
  json_baseToken_symbol :: "string option"
  json_baseToken_name :: "string option"
  json_baseToken_address :: "string option"
  json_priceUsd :: "real option"
  json_liquidity_usd :: "real option"
  json_volume_h24 :: "real option"
  json_url :: "string option"
  json_fdv :: "real option"

text \<open>
  The decoded response \<^verbatim>\<open>dex_data\<close>: its key \<^verbatim>\<open>'pairs'\<close> (\<open>None\<close>: absent, or not
  a list) and its key \<^verbatim>\<open>'pair'\<close> (\<open>None\<close>: absent). A value under
  \<^verbatim>\<open>'pairs'\<close> that is not a list but has a length above 0 can pass the first pass
  of the source; the second pass raises on it before its request, so the requests of
  the cycle (\<open>cycle_fetches\<close> below) are those of the model, the queue between the
  passes is not.
\<close>

record dex_data =
  pairs :: "pair_json list option"
  pair :: "pair_json option"

text \<open>What one request gives: an exception of \<^verbatim>\<open>requests\<close>, or the decoded body.\<close>

datatype 'a fetched = RequestFailed | Response 'a

record queue_item =
  address :: string
  data :: dex_data

text \<open>
  The first pass over one address: \<open>Some\<close> item when the address is appended to
  \<^verbatim>\<open>dex_data_queue\<close>, \<open>None\<close> when it is skipped. The source compares with the
  float product \<^verbatim>\<open>fdv*0.8\<close>, the model with the exact eight tenths.
\<close>

definition metadata_step :: "string \<Rightarrow> dex_data fetched \<Rightarrow> queue_item option" where
  "metadata_step addr resp =
     (case resp of
        RequestFailed \<Rightarrow> None
      | Response d \<Rightarrow>
          (case pairs d of
             None \<Rightarrow> None
           | Some ps \<Rightarrow>
               if length ps > 0
               then (case pair d of
                       None \<Rightarrow> None
                     | Some p \<Rightarrow>
                         (case json_fdv p of
                            None \<Rightarrow> None
                          | Some fdv' \<Rightarrow>
                              (case json_liquidity_usd p of
                                 None \<Rightarrow> None
                               | Some liquidity' \<Rightarrow>
                                   if liquidity' > fdv' * (8 / 10) then None
                                   else Some \<lparr>address = addr, data = d\<rparr>)))
               else None))"

definition metadata_pass :: "(string \<times> dex_data fetched) list \<Rightarrow> queue_item list" where
  "metadata_pass addresses = List.map_filter (\<lambda>(addr, resp). metadata_step addr resp) addresses"

text \<open>The dictionary \<^verbatim>\<open>pair_data\<close> of the second pass, with the source's keys.\<close>

record pair_data =
  symbol :: string
  name :: string
  CA :: string
  price :: real
  liquidity :: real
  volume_24h :: real
  url :: string
  fdv :: real

text \<open>
  The second pass up to its request: the pool address and \<^verbatim>\<open>pair_data\<close> read from
  \<^verbatim>\<open>dex_data['pairs'][0]\<close>. \<open>None\<close> when a read raises, in which case the item is
  skipped before its candles are requested.
\<close>

definition make_pair_data :: "dex_data \<Rightarrow> (string \<times> pair_data) option" where
  "make_pair_data d =
     (case pairs d of
        None \<Rightarrow> None
      | Some [] \<Rightarrow> None
      | Some (p # _) \<Rightarrow>
          (case (json_pairAddress p, json_baseToken_symbol p, json_baseToken_name p,
                 json_baseToken_address p) of
             (Some pool_address, Some sy, Some na, Some ca) \<Rightarrow>
               (case (json_priceUsd p, json_liquidity_usd p, json_volume_h24 p,
                      json_url p, json_fdv p) of
                  (Some pr, Some li, Some vo, Some ur, Some fd) \<Rightarrow>
                    Some (pool_address,
                          \<lparr>symbol = sy, name = na, CA = ca, price = pr, liquidity = li,
                           volume_24h = vo, url = ur, fdv = fd\<rparr>)
                | _ \<Rightarrow> None)
           | _ \<Rightarrow> None))"

text \<open>
  The candle requests of one cycle: for every queued item whose \<^verbatim>\<open>pair_data\<close> is
  built, the address, the pool address requested and the \<^verbatim>\<open>pair_data\<close>.
\<close>

definition candle_fetches :: "queue_item list \<Rightarrow> (string \<times> string \<times> pair_data) list" where
  "candle_fetches queue =
     List.map_filter
       (\<lambda>item. case make_pair_data (data item) of
                  None \<Rightarrow> None
                | Some (pool_address, pd) \<Rightarrow> Some (address item, pool_address, pd))
       queue"

definition cycle_fetches :: "(string \<times> dex_data fetched) list \<Rightarrow> (string \<times> string \<times> pair_data) list" where
  "cycle_fetches addresses = candle_fetches (metadata_pass addresses)"

text \<open>
  A pair object with every key present: the given \<^verbatim>\<open>liquidity.usd\<close> and
  \<^verbatim>\<open>fdv\<close>, and fixed values under the other keys.
\<close>

definition pair_with :: "real \<Rightarrow> real \<Rightarrow> pair_json" where
  "pair_with liq f =
     \<lparr>json_pairAddress = Some ''POOL'', json_baseToken_symbol = Some ''SYM'',
      json_baseToken_name = Some ''Name'', json_baseToken_address = Some ''MINT'',
      json_priceUsd = Some 1, json_liquidity_usd = Some liq, json_volume_h24 = Some 5000,
      json_url = Some ''https://dexscreener.com/solana/POOL'', json_fdv = Some f\<rparr>"

section \<open>The dispatcher of \<^verbatim>\<open>discord_alerts.py\<close>\<close>

text \<open>
  Text is a list of characters with code points below 256. \<^verbatim>\<open>str.strip()\<close> removes
  the characters \<^verbatim>\<open>str.isspace()\<close> accepts from both ends; below 256 these are
  9 to 13, 28 to 32, 133 and 160.
\<close>

definition isspace :: "char \<Rightarrow> bool" where
  "isspace c =
     (let n = (of_char c :: nat)
      in (9 \<le> n \<and> n \<le> 13) \<or> (28 \<le> n \<and> n \<le> 32) \<or> n = 133 \<or> n = 160)"

definition strip :: "string \<Rightarrow> string" where
  "strip s = rev (dropWhile isspace (rev (dropWhile isspace s)))"

definition startswith :: "string \<Rightarrow> string \<Rightarrow> bool" where
  "startswith s p \<longleftrightarrow> take (length p) s = p"

text \<open>\<^verbatim>\<open>sep.join(parts)\<close>\<close>

fun join :: "string \<Rightarrow> string list \<Rightarrow> string" where
  "join sep [] = []"
| "join sep [x] = x"
| "join sep (x # y # ys) = x @ sep @ join sep (y # ys)"

definition SEPARATOR :: string where
  "SEPARATOR = ''==================================================''"

definition TRADE_URL_PREFIX :: string where
  "TRADE_URL_PREFIX = ''Trade URL: https://''"

text \<open>
  The state of \<^verbatim>\<open>monitor_alerts\<close>: the global set \<^verbatim>\<open>sent_alerts\<close>, the two locals of
  the line loop, and \<open>delivered\<close>, the payloads handed to
  \<^verbatim>\<open>send_alert_to_discord\<close>, oldest first. What the webhook answers changes nothing
  in the program, so it is not part of the state.
\<close>

record monitor =
  sent_alerts :: "string set"
  delivered :: "string list"
  alert_block :: "string list"
  trade_url :: "string option"

text \<open>
  \<^verbatim>\<open>if trade_url and trade_url not in sent_alerts\<close>, then send \<open>full_alert\<close> and add the
  key. \<^verbatim>\<open>None\<close> and the empty string are false in Python.
\<close>

definition send_if_new :: "monitor \<Rightarrow> string \<Rightarrow> monitor" where
  "send_if_new m full_alert =
     (case trade_url m of
        None \<Rightarrow> m
      | Some u \<Rightarrow>
          if u \<noteq> [] \<and> u \<notin> sent_alerts m
          then m\<lparr>sent_alerts := insert u (sent_alerts m),
                 delivered := delivered m @ [full_alert]\<rparr>
          else m)"

text \<open>The body of \<^verbatim>\<open>for line in new_lines\<close>.\<close>

definition process_line :: "monitor \<Rightarrow> string \<Rightarrow> monitor" where
  "process_line m line =
     (if strip line = SEPARATOR
      then (if alert_block m \<noteq> []
            then (send_if_new m (concat (alert_block m)))\<lparr>alert_block := [], trade_url := None\<rparr>
            else m)
      else (let m' = m\<lparr>alert_block := alert_block m @ [line]\<rparr>
            in if startswith line TRADE_URL_PREFIX then m'\<lparr>trade_url := Some (strip line)\<rparr>
               else m'))"

text \<open>
  One round of the \<^verbatim>\<open>while True\<close> loop on the lines read since the last round: the
  line loop from a fresh block, then the block left over at the end of the file.
\<close>

definition process_new_lines :: "monitor \<Rightarrow> string list \<Rightarrow> monitor" where
  "process_new_lines m new_lines =
     (let m1 = foldl process_line (m\<lparr>alert_block := [], trade_url := None\<rparr>) new_lines
      in if alert_block m1 \<noteq> [] then send_if_new m1 (join ''\<newline>'' (alert_block m1)) else m1)"




text \<open>
  The line loop is between two blocks when it holds no line and no key; and it holds a
  key only while it holds lines of a block.
\<close>

definition fresh :: "monitor \<Rightarrow> bool" where
  "fresh m \<longleftrightarrow> alert_block m = [] \<and> trade_url m = None"

definition key_in_block :: "monitor \<Rightarrow> bool" where
  "key_in_block m \<longleftrightarrow> (alert_block m = [] \<and> trade_url m = None) \<or> alert_block m \<noteq> []"



section \<open>Properties of the pattern detector\<close>

subsection \<open>Frames and the scan\<close>

lemma length_DataFrame: "length (DataFrame s) = length s"
  by (simp add: DataFrame_def)

lemma map_snd_DataFrame: "map snd (DataFrame s) = s"
  by (simp add: DataFrame_def)

lemma map_fst_DataFrame: "map fst (DataFrame s) = [0..<length s]"
  by (simp add: DataFrame_def)

lemma butlast_DataFrame: "butlast (DataFrame s) = DataFrame (butlast s)"
  by (simp add: DataFrame_def enumerate_eq_zip butlast_conv_take take_zip)

lemma DataFrame_Nil_iff: "DataFrame s = [] \<longleftrightarrow> s = []"
  by (metis length_DataFrame length_0_conv)

lemma last_DataFrame: "s \<noteq> [] \<Longrightarrow> snd (last (DataFrame s)) = last s"
  by (metis last_map map_snd_DataFrame map_is_Nil_conv)

lemma iloc_minus_one: "iloc df (- 1) = (if df = [] then Inl IndexError else Inr (snd (last df)))"
proof (cases "df = []")
  case True
  then show ?thesis by (simp add: iloc_def)
next
  case False
  then have "nat (- 1 + int (length df)) = length df - 1" by simp
  with False show ?thesis
    by (simp add: iloc_def Let_def last_conv_nth)
qed

lemma prepare_data_Nil: "prepare_data clk [] = Inl IndexError"
  by (simp add: prepare_data_def iloc_minus_one DataFrame_def)

lemma prepare_data_nonempty:
  "s \<noteq> [] \<Longrightarrow> prepare_data clk s =
     Inr (DataFrame (if is_candle_closed (last s) (clk 0) then s else butlast s))"
  by (simp add: prepare_data_def iloc_minus_one Let_def last_DataFrame butlast_DataFrame
      DataFrame_Nil_iff)

lemma first_closed_cong:
  "(\<And>j row. row \<in> snd ` set df \<Longrightarrow> is_candle_closed row (clk j) = is_candle_closed row (clk' j))
   \<Longrightarrow> first_closed clk k df = first_closed clk' k df"
proof (induction clk k df rule: first_closed.induct)
  case (1 clk k)
  then show ?case by simp
next
  case (2 clk k i row rest)
  have "is_candle_closed row (clk k) = is_candle_closed row (clk' k)"
    using "2.prems" by force
  moreover have "\<not> is_candle_closed row (clk k) \<Longrightarrow> first_closed clk (Suc k) rest = first_closed clk' (Suc k) rest"
    using "2.IH" "2.prems" by force
  ultimately show ?case by auto
qed

lemma iloc_label:
  assumes "i < length df"
  shows "iloc df (int i) = Inr (snd (df ! i))"
  using assms by (simp add: iloc_def Let_def)

lemma first_closed_none_closed:
  "(\<And>j row. row \<in> snd ` set df \<Longrightarrow> \<not> is_candle_closed row (clk j)) \<Longrightarrow> first_closed clk k df = None"
proof (induction clk k df rule: first_closed.induct)
  case (1 clk k)
  then show ?case by simp
next
  case (2 clk k i row rest)
  have "\<not> is_candle_closed row (clk k)" using "2.prems" by force
  moreover have "first_closed clk (Suc k) rest = None"
    using "2.IH" "2.prems" calculation by force
  ultimately show ?case by simp
qed

lemma analyze_candles_no_closed_candle:
  assumes "ohlcv_data \<noteq> []"
    and "\<forall>k. \<forall>c \<in> set ohlcv_data. \<not> is_candle_closed c (clk k)"
  shows "analyze_candles clk ohlcv_data = Inr (Invalid insufficient_candles)"
proof -
  have "\<not> is_candle_closed (last ohlcv_data) (clk 0)" using assms by simp
  then have prep: "prepare_data clk ohlcv_data = Inr (DataFrame (butlast ohlcv_data))"
    using assms(1) by (simp add: prepare_data_nonempty)
  have "snd ` set (rev (DataFrame (butlast ohlcv_data))) = set (butlast ohlcv_data)"
    by (metis set_map set_rev map_snd_DataFrame)
  then have "\<And>j row. row \<in> snd ` set (rev (DataFrame (butlast ohlcv_data))) \<Longrightarrow>
      \<not> is_candle_closed row (clk j)"
    using assms(2) by (auto dest: in_set_butlastD)
  then have "first_closed clk 1 (rev (DataFrame (butlast ohlcv_data))) = None"
    by (rule first_closed_none_closed)
  then show ?thesis
    unfolding analyze_candles_def prep by simp
qed

lemma DataFrame_snoc: "DataFrame (xs @ [x]) = DataFrame xs @ [(length xs, x)]"
  by (simp add: DataFrame_def enumerate_append_eq)

lemma DataFrame_hd: "s \<noteq> [] \<Longrightarrow> DataFrame s ! 0 = (0, hd s)"
  by (cases s) (simp_all add: DataFrame_def)

text \<open>
  What the model computes, in real arithmetic, when the newest candle of the series is
  closed (and its volume is not negative): the scan stops at the newest row, \<^verbatim>\<open>df.loc[:i]\<close> holds that
  row alone, and \<^verbatim>\<open>df.iloc[i]\<close> reads the oldest row. The volume of the oldest
  candle is compared with the volume of the newest one.
\<close>

lemma analyze_candles_last_closed:
  assumes ne: "ohlcv_data \<noteq> []"
    and c0: "is_candle_closed (last ohlcv_data) (clk 0)"
    and c1: "is_candle_closed (last ohlcv_data) (clk 1)"
    and v: "volume (last ohlcv_data) \<ge> 0"
  shows "analyze_candles clk ohlcv_data =
     Inr (if volume (last ohlcv_data) < 10 then Invalid below_volume_floor
          else if volume (hd ohlcv_data) > effective_avg_volume (volume (last ohlcv_data))
          then Valid (timestamp (hd ohlcv_data)) (volume (hd ohlcv_data)) (volume (last ohlcv_data))
          else Invalid last_candle_volume_not_higher_than_average)"
proof -
  let ?n = "length ohlcv_data"
  let ?df = "rev (DataFrame ohlcv_data)"
  have prep: "prepare_data clk ohlcv_data = Inr (DataFrame ohlcv_data)"
    using ne c0 by (simp add: prepare_data_nonempty)
  have "DataFrame ohlcv_data = DataFrame (butlast ohlcv_data @ [last ohlcv_data])"
    using ne by simp
  also have "\<dots> = DataFrame (butlast ohlcv_data) @ [(?n - 1, last ohlcv_data)]"
    by (simp only: DataFrame_snoc length_butlast)
  finally have df: "?df = (?n - 1, last ohlcv_data) # rev (DataFrame (butlast ohlcv_data))"
    by simp
  have scan: "first_closed clk 1 ?df = Some (?n - 1)"
    using c1 by (simp add: df)
  have prev: "loc_upto ?df (?n - 1) = [(?n - 1, last ohlcv_data)]"
    by (simp add: df)
  have avg: "geometric_mean (map (\<lambda>(l, row). volume row) (loc_upto ?df (?n - 1))) = volume (last ohlcv_data)"
    unfolding prev using v by (simp add: geometric_mean_def)
  have "?n - 1 < length ?df" using ne by (simp add: length_DataFrame)
  then have "iloc ?df (int (?n - 1)) = Inr (snd (?df ! (?n - 1)))"
    by (rule iloc_label)
  also have "?df ! (?n - 1) = DataFrame ohlcv_data ! 0"
    using ne by (simp add: rev_nth length_DataFrame)
  also have "\<dots> = (0, hd ohlcv_data)" using ne by (rule DataFrame_hd)
  finally have row: "iloc ?df (int (?n - 1)) = Inr (hd ohlcv_data)" by simp
  show ?thesis
    unfolding analyze_candles_def prep
    by (simp only: sum.case Let_def scan option.case avg row) simp
qed

lemma geometric_mean_900_100: "geometric_mean [900, 100] = 300"
proof -
  have "(900 * 100 :: real) = 300 powr 2" by simp
  then have "(900 * 100 :: real) powr (1 / 2) = (300 powr 2) powr (1 / 2)" by simp
  also have "\<dots> = 300" by (simp only: powr_powr) simp
  finally show ?thesis by (simp add: geometric_mean_def)
qed

lemma geometric_mean_8000_1000_1000: "geometric_mean [8000, 1000, 1000] = 2000"
proof -
  have "(8000 * (1000 * 1000) :: real) = 2000 powr 3" by simp
  then have "(8000 * (1000 * 1000) :: real) powr (1 / 3) = (2000 powr 3) powr (1 / 3)" by simp
  also have "\<dots> = 2000" by (simp only: powr_powr) simp
  finally show ?thesis by (simp add: geometric_mean_def)
qed

subsection \<open>\<^verbatim>\<open>prepare_data\<close>\<close>

text \<open>
  Claim C6 as the code has it. For a non-empty series \<^verbatim>\<open>prepare_data\<close> returns the
  frame of the series itself when the last candle is closed, that is when its timestamp
  is a multiple of 300 and earlier than the clock reading, and the frame of the series
  without its last candle otherwise. The rows that stay are the entries of the series,
  unchanged and in order.
\<close>

theorem prepare_data_drops_unclosed_last:
  assumes "ohlcv_data \<noteq> []"
  shows "prepare_data clk ohlcv_data =
           Inr (DataFrame
                  (if timestamp (last ohlcv_data) mod 300 = 0 \<and>
                      real_of_int (timestamp (last ohlcv_data)) < clk 0
                   then ohlcv_data else butlast ohlcv_data)) \<and>
         map snd (DataFrame
                  (if timestamp (last ohlcv_data) mod 300 = 0 \<and>
                      real_of_int (timestamp (last ohlcv_data)) < clk 0
                   then ohlcv_data else butlast ohlcv_data)) =
           (if timestamp (last ohlcv_data) mod 300 = 0 \<and>
               real_of_int (timestamp (last ohlcv_data)) < clk 0
            then ohlcv_data else butlast ohlcv_data)"
  using assms by (simp add: prepare_data_nonempty is_candle_closed_def map_snd_DataFrame)

theorem prepare_data_drops_unclosed_last_witness:
  "prepare_data (frozen_clock 1000) [flat_candle 300 5, flat_candle 600 7] =
     Inr [(0, flat_candle 300 5), (1, flat_candle 600 7)] \<and>
   prepare_data (frozen_clock 1000) [flat_candle 300 5, flat_candle 601 7] =
     Inr [(0, flat_candle 300 5)]"
proof -
  have ne: "[flat_candle 300 5, flat_candle 600 7] \<noteq> []" "[flat_candle 300 5, flat_candle 601 7] \<noteq> []"
    by simp_all
  from prepare_data_drops_unclosed_last [OF ne(1), of "frozen_clock 1000"] prepare_data_drops_unclosed_last [OF ne(2), of "frozen_clock 1000"]
  show ?thesis
    by (simp add: DataFrame_def frozen_clock_def flat_candle_def)
qed

text \<open>
  Claim C6 as stated keeps every last candle whose timestamp is a multiple of 300. The
  last candle here has timestamp 600, a multiple of 300, the clock reads 100, and the
  candle is dropped.
\<close>

theorem prepare_data_drops_aligned_future_last:
  "timestamp (flat_candle 600 7) mod 300 = 0 \<and>
   prepare_data (frozen_clock 100) [flat_candle 300 5, flat_candle 600 7] = Inr [(0, flat_candle 300 5)]"
  by (simp add: prepare_data_def DataFrame_def iloc_def is_candle_closed_def frozen_clock_def
      flat_candle_def)

subsection \<open>\<^verbatim>\<open>analyze_candles\<close>\<close>

text \<open>
  Claim C5 says that every series without a closed candle gives
  \<open>insufficient_candles\<close>. On the empty series the code raises instead:
  \<^verbatim>\<open>df.iloc[-1]\<close> in \<^verbatim>\<open>prepare_data\<close> is out of bounds. (For a non-empty series
  \<open>analyze_candles_no_closed_candle\<close> above gives the claimed result.)
\<close>

theorem analyze_candles_empty_series_raises: "analyze_candles clk [] = Inl IndexError"
  by (simp add: analyze_candles_def prepare_data_Nil)

text \<open>
  Claim C1 says that \<open>last_candle_volume\<close> is the volume of the target, the first
  closed candle met from the most recent entry backwards. On the series below both
  candles are closed, the scan stops at label 1 (the candle at 600, volume 10000), and
  the code reads \<^verbatim>\<open>df.iloc[i]\<close> in the reversed frame, which is the row at
  position 1: the candle at 300. It returns 40000 as \<open>last_candle_volume\<close>.
\<close>

theorem last_candle_volume_read_by_position:
  "first_closed (frozen_clock 1000) 1 (rev (DataFrame [flat_candle 300 40000, flat_candle 600 10000])) = Some 1 \<and>
   volume ([flat_candle 300 40000, flat_candle 600 10000] ! 1) = 10000 \<and>
   analyze_candles (frozen_clock 1000) [flat_candle 300 40000, flat_candle 600 10000] =
     Inr (Valid 300 40000 10000)"
  by (simp add: analyze_candles_def prepare_data_def DataFrame_def iloc_def is_candle_closed_def
      geometric_mean_def effective_avg_volume_def frozen_clock_def flat_candle_def)

text \<open>
  Claim C2 says that \<open>average_previous_volume\<close> is the geometric mean over the
  target and all older candles. On the series below the target is the candle at 900;
  the geometric mean of the three volumes is 2000. The code takes
  \<^verbatim>\<open>df.loc[:i]\<close> in the reversed frame, the rows from the newest one through the
  target, here the target alone, and returns 1000.
\<close>

theorem average_previous_volume_of_newer_rows:
  "analyze_candles (frozen_clock 1000) [flat_candle 300 8000, flat_candle 600 1000, flat_candle 900 1000] =
     Inr (Valid 300 8000 1000) \<and>
   first_closed (frozen_clock 1000) 1
     (rev (DataFrame [flat_candle 300 8000, flat_candle 600 1000, flat_candle 900 1000])) = Some 2 \<and>
   geometric_mean (map volume [flat_candle 300 8000, flat_candle 600 1000, flat_candle 900 1000]) = 2000"
proof -
  have "geometric_mean (map volume [flat_candle 300 8000, flat_candle 600 1000, flat_candle 900 1000]) = 2000"
    using geometric_mean_8000_1000_1000 by (simp add: flat_candle_def)
  moreover have "analyze_candles (frozen_clock 1000) [flat_candle 300 8000, flat_candle 600 1000, flat_candle 900 1000] =
     Inr (Valid 300 8000 1000)"
    by (simp add: analyze_candles_def prepare_data_def DataFrame_def iloc_def is_candle_closed_def
      geometric_mean_def effective_avg_volume_def frozen_clock_def flat_candle_def)
  moreover have "first_closed (frozen_clock 1000) 1
     (rev (DataFrame [flat_candle 300 8000, flat_candle 600 1000, flat_candle 900 1000])) = Some 2"
    by (simp add: DataFrame_def is_candle_closed_def frozen_clock_def flat_candle_def)
  ultimately show ?thesis by simp
qed

text \<open>
  Claim C3 says that, with a target and an average of at least 10, the result is valid
  exactly when \<open>last_candle_volume\<close>, the target's volume, exceeds the effective
  average of the geometric mean over the target and the older candles. On the series
  below the target is the candle at 600 with volume 100; the geometric mean of 900 and
  100 is 300, at least 10 and below 999, so the effective average is 2100 and the claim
  gives an invalid result. The code compares the volume 900 of the oldest candle with
  seven times the volume 100 of the newest one and returns a valid result.
\<close>

theorem valid_without_elevated_target_volume:
  "analyze_candles (frozen_clock 1000) [flat_candle 300 900, flat_candle 600 100] =
     Inr (Valid 300 900 100) \<and>
   first_closed (frozen_clock 1000) 1 (rev (DataFrame [flat_candle 300 900, flat_candle 600 100])) = Some 1 \<and>
   volume ([flat_candle 300 900, flat_candle 600 100] ! 1) = 100 \<and>
   geometric_mean (map volume [flat_candle 300 900, flat_candle 600 100]) = 300 \<and>
   effective_avg_volume 300 = 2100"
proof -
  have "geometric_mean (map volume [flat_candle 300 900, flat_candle 600 100]) = 300"
    using geometric_mean_900_100 by (simp add: flat_candle_def)
  moreover have "analyze_candles (frozen_clock 1000) [flat_candle 300 900, flat_candle 600 100] =
     Inr (Valid 300 900 100)"
    by (simp add: analyze_candles_def prepare_data_def DataFrame_def iloc_def is_candle_closed_def
      geometric_mean_def effective_avg_volume_def frozen_clock_def flat_candle_def)
  moreover have "first_closed (frozen_clock 1000) 1
     (rev (DataFrame [flat_candle 300 900, flat_candle 600 100])) = Some 1"
    by (simp add: DataFrame_def is_candle_closed_def frozen_clock_def flat_candle_def)
  moreover have "volume ([flat_candle 300 900, flat_candle 600 100] ! 1) = 100"
    by (simp add: flat_candle_def)
  moreover have "effective_avg_volume 300 = 2100"
    by (simp add: effective_avg_volume_def)
  ultimately show ?thesis by simp
qed

text \<open>
  Claim C4 as the code has it. The result depends on the series and on the clock
  readings \<^verbatim>\<open>is_candle_closed\<close> takes, and on nothing else: two calls on the same
  series return the same result whenever, reading by reading, the two clocks agree on
  which candles of the series are closed.
\<close>

theorem analyze_candles_clock_agreement:
  assumes "\<forall>k. \<forall>c \<in> set ohlcv_data. is_candle_closed c (clk k) = is_candle_closed c (clk' k)"
  shows "analyze_candles clk ohlcv_data = analyze_candles clk' ohlcv_data"
proof (cases "ohlcv_data = []")
  case True
  then show ?thesis by (simp add: analyze_candles_def prepare_data_Nil)
next
  case False
  let ?kept = "if is_candle_closed (last ohlcv_data) (clk 0) then ohlcv_data else butlast ohlcv_data"
  have "is_candle_closed (last ohlcv_data) (clk 0) = is_candle_closed (last ohlcv_data) (clk' 0)"
    using assms False by simp
  then have prep: "prepare_data clk ohlcv_data = Inr (DataFrame ?kept)"
    "prepare_data clk' ohlcv_data = Inr (DataFrame ?kept)"
    using False by (simp_all add: prepare_data_nonempty)
  have sub: "set ?kept \<subseteq> set ohlcv_data"
    by (auto dest: in_set_butlastD)
  have "snd ` set (rev (DataFrame ?kept)) = set ?kept"
    by (metis set_map set_rev map_snd_DataFrame)
  then have "\<And>j row. row \<in> snd ` set (rev (DataFrame ?kept)) \<Longrightarrow>
      is_candle_closed row (clk j) = is_candle_closed row (clk' j)"
    using assms sub by blast
  then have "first_closed clk 1 (rev (DataFrame ?kept)) = first_closed clk' 1 (rev (DataFrame ?kept))"
    by (rule first_closed_cong)
  then show ?thesis
    unfolding analyze_candles_def prep by simp
qed

theorem analyze_candles_clock_agreement_witness:
  "analyze_candles (frozen_clock 1000) [flat_candle 300 5000] =
     analyze_candles (frozen_clock 2000) [flat_candle 300 5000] \<and>
   analyze_candles (frozen_clock 2000) [flat_candle 300 5000] =
     Inr (Invalid last_candle_volume_not_higher_than_average)"
proof -
  have h: "\<forall>k. \<forall>c \<in> set [flat_candle 300 5000].
       is_candle_closed c (frozen_clock 1000 k) = is_candle_closed c (frozen_clock 2000 k)"
    by (simp add: is_candle_closed_def frozen_clock_def flat_candle_def)
  have "analyze_candles (frozen_clock 2000) [flat_candle 300 5000] =
     Inr (Invalid last_candle_volume_not_higher_than_average)"
    by (simp add: analyze_candles_def prepare_data_def DataFrame_def iloc_def is_candle_closed_def
        geometric_mean_def effective_avg_volume_def frozen_clock_def flat_candle_def)
  with analyze_candles_clock_agreement [OF h] show ?thesis by simp
qed

text \<open>
  Claim C4 as stated makes the result independent of the time of the call. The same
  one-candle series (timestamp 300) gives \<open>last_candle_volume_not_higher_than_average\<close>
  when the clock reads 1000 and \<open>insufficient_candles\<close> when it reads 100.
\<close>

theorem analyze_candles_depends_on_clock:
  "analyze_candles (frozen_clock 1000) [flat_candle 300 5000] =
     Inr (Invalid last_candle_volume_not_higher_than_average) \<and>
   analyze_candles (frozen_clock 100) [flat_candle 300 5000] = Inr (Invalid insufficient_candles) \<and>
   analyze_candles (frozen_clock 1000) [flat_candle 300 5000] \<noteq>
     analyze_candles (frozen_clock 100) [flat_candle 300 5000]"
  by (simp add: analyze_candles_def prepare_data_def DataFrame_def iloc_def is_candle_closed_def
      geometric_mean_def effective_avg_volume_def frozen_clock_def flat_candle_def)

section \<open>Properties of the rate limiter\<close>

text \<open>
  With a limit of at least 1 the call never raises. The timestamps it leaves are the
  old ones without the leading entries older than 60 seconds, followed by the time read
  on entry; this is so also when it sleeps.
\<close>

lemma wait_if_needed_records_entry_time:
  assumes "calls_per_minute self \<ge> 1"
  shows "\<exists>slept. wait_if_needed self current_time =
           Inr (slept, self\<lparr>timestamps :=
                  dropWhile (\<lambda>t. current_time - t > 60) (timestamps self) @ [current_time]\<rparr>) \<and>
           slept \<ge> 0"
  using assms unfolding wait_if_needed_def Let_def
  by (auto split: list.splits simp del: dropWhile_eq_Nil_conv)

text \<open>
  Claim C8 says that the limiter never lets more than \<open>calls_per_minute\<close> recorded
  calls into any 60 seconds. With a limit of 1, a caller that starts at time 0 and
  waits one second before its second and its third call: the first call records 0; the
  second enters at 1, sleeps 59 seconds and records its entry time 1, so two recorded
  timestamps lie in the 60 seconds that end at 1; the third enters at 61, drops the
  timestamp 0, finds the timestamp 1 exactly 60 seconds old and does not sleep. The
  calls are released at 0, 60 and 61: two releases in the 60 seconds that end at 61.
\<close>

theorem rate_limiter_two_releases_in_window:
  "RateLimiter 1 = Inr \<lparr>calls_per_minute = 1, interval = 60, timestamps = []\<rparr> \<and>
   wait_if_needed \<lparr>calls_per_minute = 1, interval = 60, timestamps = []\<rparr> 0 =
     Inr (0, \<lparr>calls_per_minute = 1, interval = 60, timestamps = [0]\<rparr>) \<and>
   wait_if_needed \<lparr>calls_per_minute = 1, interval = 60, timestamps = [0]\<rparr> 1 =
     Inr (59, \<lparr>calls_per_minute = 1, interval = 60, timestamps = [0, 1]\<rparr>) \<and>
   calls_in_window [0, 1] 1 = 2 \<and>
   release_times \<lparr>calls_per_minute = 1, interval = 60, timestamps = []\<rparr> 0 [0, 1, 1] =
     Inr ([0, 60, 61], \<lparr>calls_per_minute = 1, interval = 60, timestamps = [1, 61]\<rparr>) \<and>
   calls_in_window [0, 60, 61] 61 = 2"
  by (simp add: RateLimiter_def wait_if_needed_def calls_in_window_def)

section \<open>Properties of the two passes\<close>

text \<open>
  The first pass queues an address only when the object under \<^verbatim>\<open>'pair'\<close> passes the
  guard; the second pass reads \<^verbatim>\<open>pair_data\<close> from the first element of
  \<^verbatim>\<open>'pairs'\<close>.
\<close>

lemma metadata_step_checks_pair_object:
  assumes "metadata_step addr resp = Some item"
  shows "\<exists>d p f l. resp = Response d \<and> item = \<lparr>address = addr, data = d\<rparr> \<and> pair d = Some p \<and>
           json_fdv p = Some f \<and> json_liquidity_usd p = Some l \<and> l \<le> f * (8 / 10)"
  using assms
  by (auto simp: metadata_step_def split: fetched.splits option.splits if_splits)

lemma make_pair_data_reads_first_of_pairs:
  assumes "make_pair_data d = Some (pool, pd)"
  shows "\<exists>p ps. pairs d = Some (p # ps) \<and> json_liquidity_usd p = Some (liquidity pd) \<and>
           json_fdv p = Some (fdv pd)"
  using assms
  by (auto simp: make_pair_data_def split: option.splits list.splits)

text \<open>
  When in every response the two objects carry the same \<^verbatim>\<open>liquidity.usd\<close> and
  \<^verbatim>\<open>fdv\<close>, every \<^verbatim>\<open>pair_data\<close> whose candles are requested is within the bound.
\<close>

lemma cycle_fetches_bound_when_objects_agree:
  assumes agree: "\<And>addr d p p' ps. (addr, Response d) \<in> set addresses \<Longrightarrow> pair d = Some p \<Longrightarrow>
            pairs d = Some (p' # ps) \<Longrightarrow>
            json_liquidity_usd p' = json_liquidity_usd p \<and> json_fdv p' = json_fdv p"
    and fetch: "(addr, pool, pd) \<in> set (cycle_fetches addresses)"
  shows "liquidity pd \<le> fdv pd * (8 / 10)"
proof -
  from fetch obtain item where item: "item \<in> set (metadata_pass addresses)"
    and mk: "make_pair_data (data item) = Some (pool, pd)"
    by (auto simp: cycle_fetches_def candle_fetches_def List.map_filter_def split: option.splits)
  from item obtain a resp where ar: "(a, resp) \<in> set addresses"
    and st: "metadata_step a resp = Some item"
    by (auto simp: metadata_pass_def List.map_filter_def)
  from metadata_step_checks_pair_object [OF st] obtain d p f l where
    d: "resp = Response d" "item = \<lparr>address = a, data = d\<rparr>" "pair d = Some p"
      "json_fdv p = Some f" "json_liquidity_usd p = Some l" "l \<le> f * (8 / 10)"
    by blast
  from make_pair_data_reads_first_of_pairs [OF mk] d(2) obtain p' ps where
    p': "pairs d = Some (p' # ps)" "json_liquidity_usd p' = Some (liquidity pd)"
      "json_fdv p' = Some (fdv pd)"
    by auto
  from agree [OF ar [unfolded d(1)] d(3) p'(1)] d(4,5) p'(2,3)
  have "liquidity pd = l" "fdv pd = f" by simp_all
  with d(6) show ?thesis by simp
qed

text \<open>
  Claim C7 says that every pair that reaches the candle pass has
  \<open>liquidity \<le> 0.8 * fdv\<close>. The first pass checks the object under the key
  \<^verbatim>\<open>'pair'\<close>; the second pass builds \<^verbatim>\<open>pair_data\<close> from
  \<^verbatim>\<open>dex_data['pairs'][0]\<close>. For the response below the checked object has liquidity
  100 and the other one 900, both with fdv 1000: the address is queued, its candles are
  requested, and its \<^verbatim>\<open>pair_data\<close> has liquidity 900 above 800.
\<close>

theorem liquidity_guard_reads_other_pair_object:
  "cycle_fetches
     [(''ADDR'', Response \<lparr>pairs = Some [pair_with 900 1000], pair = Some (pair_with 100 1000)\<rparr>)] =
   [(''ADDR'', ''POOL'',
     \<lparr>symbol = ''SYM'', name = ''Name'', CA = ''MINT'', price = 1, liquidity = 900,
      volume_24h = 5000, url = ''https://dexscreener.com/solana/POOL'', fdv = 1000\<rparr>)] \<and>
   (900::real) > (8 / 10) * 1000"
  by (simp add: cycle_fetches_def candle_fetches_def metadata_pass_def metadata_step_def
      make_pair_data_def pair_with_def List.map_filter_simps)

section \<open>Properties of the dispatcher\<close>



lemma foldl_process_line_block:
  assumes "\<forall>l \<in> set b. strip l \<noteq> SEPARATOR"
  shows "foldl process_line m b =
     m\<lparr>alert_block := alert_block m @ b,
       trade_url := (if filter (\<lambda>l. startswith l TRADE_URL_PREFIX) b = [] then trade_url m
                     else Some (strip (last (filter (\<lambda>l. startswith l TRADE_URL_PREFIX) b))))\<rparr>"
  using assms
proof (induction b arbitrary: m)
  case Nil
  then show ?case by simp
next
  case (Cons l b)
  then show ?case by (simp add: process_line_def Let_def)
qed

lemma process_line_separator:
  assumes "strip sep = SEPARATOR"
  shows "process_line m sep =
     (if alert_block m \<noteq> []
      then (send_if_new m (concat (alert_block m)))\<lparr>alert_block := [], trade_url := None\<rparr>
      else m)"
  using assms by (simp add: process_line_def)


lemma block_without_url:
  assumes nosep: "\<forall>l \<in> set b. strip l \<noteq> SEPARATOR"
    and nourl: "\<forall>l \<in> set b. \<not> startswith l TRADE_URL_PREFIX"
    and sep: "strip sep = SEPARATOR"
    and fr: "fresh m"
  shows "foldl process_line m (b @ [sep]) = m"
proof -
  have none: "filter (\<lambda>l. startswith l TRADE_URL_PREFIX) b = []"
    using nourl by (simp add: filter_empty_conv)
  have scan: "foldl process_line m b = m\<lparr>alert_block := b, trade_url := None\<rparr>"
    using fr none by (simp add: foldl_process_line_block [OF nosep] fresh_def)
  show ?thesis
    using fr by (simp add: scan process_line_separator [OF sep] send_if_new_def fresh_def)
qed


lemma key_in_block_step: "key_in_block m \<Longrightarrow> key_in_block (process_line m line)"
  by (auto simp: key_in_block_def process_line_def Let_def send_if_new_def split: option.splits)

lemma key_in_block_foldl: "key_in_block m \<Longrightarrow> key_in_block (foldl process_line m ls)"
  by (induction ls arbitrary: m) (simp_all add: key_in_block_step)

lemma fresh_after_separator:
  assumes "strip sep = SEPARATOR" and "key_in_block m"
  shows "fresh (process_line m sep)"
  using assms by (auto simp: process_line_separator fresh_def key_in_block_def)

lemma fresh_reset: "fresh (m\<lparr>alert_block := [], trade_url := None\<rparr>)"
  by (simp add: fresh_def)

lemma fresh_key_in_block: "fresh m \<Longrightarrow> key_in_block m"
  by (simp add: fresh_def key_in_block_def)









text \<open>
  Claim C10. Let \<open>b\<close> be a block (no line of it is the separator) without a line
  that starts with \<^verbatim>\<open>Trade URL: https://\<close>. Wherever it stands in the lines of a
  round (after a separator or first, before a separator or last) the round ends as it
  would without the block: nothing is sent for it and the seen set is as before.
\<close>

theorem block_without_trade_url_not_delivered:
  assumes "\<forall>l \<in> set b. strip l \<noteq> SEPARATOR"
    and "\<forall>l \<in> set b. \<not> startswith l TRADE_URL_PREFIX"
    and "strip sep = SEPARATOR"
  shows "process_new_lines m (pre @ [sep] @ b @ [sep] @ post) = process_new_lines m (pre @ [sep] @ post) \<and>
         process_new_lines m (b @ [sep] @ post) = process_new_lines m post \<and>
         sent_alerts (process_new_lines m (pre @ [sep] @ b)) = sent_alerts (process_new_lines m (pre @ [sep])) \<and>
         delivered (process_new_lines m (pre @ [sep] @ b)) = delivered (process_new_lines m (pre @ [sep])) \<and>
         sent_alerts (process_new_lines m b) = sent_alerts m \<and>
         delivered (process_new_lines m b) = delivered m"
proof -
  let ?m0 = "m\<lparr>alert_block := [], trade_url := None\<rparr>"
  let ?ma = "foldl process_line ?m0 (pre @ [sep])"
  have fr0: "fresh ?m0" by (rule fresh_reset)
  have "key_in_block (foldl process_line ?m0 pre)"
    using fr0 by (intro key_in_block_foldl fresh_key_in_block)
  then have "fresh (process_line (foldl process_line ?m0 pre) sep)"
    using assms(3) by (intro fresh_after_separator)
  then have fra: "fresh ?ma" by simp
  have none: "filter (\<lambda>l. startswith l TRADE_URL_PREFIX) b = []"
    using assms(2) by (simp add: filter_empty_conv)
  have skip_a: "foldl process_line ?ma (b @ [sep]) = ?ma"
    by (rule block_without_url [OF assms fra])
  have skip_0: "foldl process_line ?m0 (b @ [sep]) = ?m0"
    by (rule block_without_url [OF assms fr0])
  have "foldl process_line ?m0 (pre @ [sep] @ b @ [sep] @ post) =
        foldl process_line (foldl process_line ?ma (b @ [sep])) post"
    by (simp only: foldl_append)
  also have "\<dots> = foldl process_line ?ma post"
    by (simp only: skip_a)
  also have "\<dots> = foldl process_line ?m0 (pre @ [sep] @ post)"
    by (simp only: foldl_append)
  finally have c1: "process_new_lines m (pre @ [sep] @ b @ [sep] @ post) = process_new_lines m (pre @ [sep] @ post)"
    by (simp only: process_new_lines_def)
  have "foldl process_line ?m0 (b @ [sep] @ post) = foldl process_line (foldl process_line ?m0 (b @ [sep])) post"
    by (simp only: foldl_append)
  also have "\<dots> = foldl process_line ?m0 post"
    by (simp only: skip_0)
  finally have c2: "process_new_lines m (b @ [sep] @ post) = process_new_lines m post"
    by (simp only: process_new_lines_def)
  have tail_a: "foldl process_line ?m0 (pre @ [sep] @ b) = ?ma\<lparr>alert_block := b, trade_url := None\<rparr>"
    using fra none
    by (simp only: foldl_append [symmetric] append_assoc [symmetric])
      (simp add: foldl_process_line_block [OF assms(1)] fresh_def)
  have pa: "process_new_lines m (pre @ [sep]) = ?ma"
    using fra by (simp add: process_new_lines_def fresh_def Let_def)
  have pb: "process_new_lines m (pre @ [sep] @ b) =
      (if b \<noteq> [] then send_if_new (?ma\<lparr>alert_block := b, trade_url := None\<rparr>) (join ''\<newline>'' b)
       else ?ma\<lparr>alert_block := b, trade_url := None\<rparr>)"
    unfolding process_new_lines_def tail_a Let_def by simp
  have c3: "sent_alerts (process_new_lines m (pre @ [sep] @ b)) = sent_alerts (process_new_lines m (pre @ [sep]))"
    unfolding pa pb by (simp add: send_if_new_def)
  have c4: "delivered (process_new_lines m (pre @ [sep] @ b)) = delivered (process_new_lines m (pre @ [sep]))"
    unfolding pa pb by (simp add: send_if_new_def)
  have tail_0: "foldl process_line ?m0 b = ?m0\<lparr>alert_block := b, trade_url := None\<rparr>"
    using none by (simp add: foldl_process_line_block [OF assms(1)])
  have p0: "process_new_lines m b =
      (if b \<noteq> [] then send_if_new (?m0\<lparr>alert_block := b, trade_url := None\<rparr>) (join ''\<newline>'' b)
       else ?m0\<lparr>alert_block := b, trade_url := None\<rparr>)"
    unfolding process_new_lines_def tail_0 Let_def by simp
  have c5: "sent_alerts (process_new_lines m b) = sent_alerts m"
    unfolding p0 by (simp add: send_if_new_def)
  have c6: "delivered (process_new_lines m b) = delivered m"
    unfolding p0 by (simp add: send_if_new_def)
  from c1 c2 c3 c4 c5 c6 show ?thesis by simp
qed

theorem block_without_trade_url_not_delivered_witness:
  "process_new_lines \<lparr>sent_alerts = {}, delivered = [], alert_block = [], trade_url = None\<rparr>
     ([''Name: X\<newline>'', ''Volume: 5\<newline>''] @ [SEPARATOR @ ''\<newline>''] @
      [''Trade URL: https://x.io/p\<newline>'', SEPARATOR @ ''\<newline>'']) =
   \<lparr>sent_alerts = {''Trade URL: https://x.io/p''},
    delivered = [''Trade URL: https://x.io/p\<newline>''], alert_block = [], trade_url = None\<rparr> \<and>
   delivered (process_new_lines \<lparr>sent_alerts = {}, delivered = [], alert_block = [], trade_url = None\<rparr>
     [''Name: X\<newline>'', ''Volume: 5\<newline>'']) = []"
proof -
  let ?b = "[''Name: X\<newline>'', ''Volume: 5\<newline>'']"
  let ?sep = "SEPARATOR @ ''\<newline>''"
  let ?m = "\<lparr>sent_alerts = {}, delivered = [], alert_block = [], trade_url = None\<rparr>"
  let ?post = "[''Trade URL: https://x.io/p\<newline>'', SEPARATOR @ ''\<newline>'']"
  have h1: "\<forall>l \<in> set ?b. strip l \<noteq> SEPARATOR"
    by (simp add: strip_def isspace_def SEPARATOR_def)
  have h2: "\<forall>l \<in> set ?b. \<not> startswith l TRADE_URL_PREFIX"
    by (simp add: startswith_def TRADE_URL_PREFIX_def)
  have h3: "strip ?sep = SEPARATOR"
    by (simp add: strip_def isspace_def SEPARATOR_def)
  have post: "process_new_lines ?m ?post =
     \<lparr>sent_alerts = {''Trade URL: https://x.io/p''},
      delivered = [''Trade URL: https://x.io/p\<newline>''], alert_block = [], trade_url = None\<rparr>"
    by (simp add: process_new_lines_def process_line_def send_if_new_def strip_def isspace_def
        SEPARATOR_def startswith_def TRADE_URL_PREFIX_def)
  from block_without_trade_url_not_delivered [where m = ?m and pre = "[]" and post = ?post, OF h1 h2 h3]
  have "process_new_lines ?m (?b @ [?sep] @ ?post) = process_new_lines ?m ?post"
    and "delivered (process_new_lines ?m ?b) = delivered ?m"
    by blast+
  then show ?thesis by (simp only: post) simp
qed

end
